theory Spec2Isabelle
  imports
    Complex_Main
    "HOL-Library.Multiset"
    "HOL-Library.Sublist"
    "HOL-Library.List_Lexorder"
    "HOL-Library.Char_ord"
begin

section \<open>The dashboard client (frontend/scripts.js)\<close>

text \<open>
  The client is a set of event handlers over module-level variables, the DOM and the
  browser's storage. Each handler is embedded as a function on an explicit \<open>state\<close>
  record. An \<open>await\<close> is the point where the environment answers: the answer (the HTTP
  response) is an argument of the handler, and a rejected promise is the outcome
  \<open>Rejected\<close>, with the state as it was when the exception was thrown. Interleavings of
  two handlers at an \<open>await\<close> are outside the embedding.
\<close>

subsection \<open>Strings and numbers of the language\<close>

text \<open>
  A string is a list of characters; the embedding covers ASCII text, where
  \<open>toLowerCase\<close> maps \<open>A..Z\<close> to \<open>a..z\<close> and leaves every other character alone.
\<close>

definition toLowerCase_char :: "char \<Rightarrow> char" where
  "toLowerCase_char c =
     (if CHR ''A'' \<le> c \<and> c \<le> CHR ''Z'' then char_of (of_char c + (32::nat)) else c)"

definition toLowerCase :: "string \<Rightarrow> string" where
  "toLowerCase s = map toLowerCase_char s"

text \<open>\<open>s.includes(t)\<close>: \<open>t\<close> starts at some position of \<open>s\<close>.\<close>

fun str_includes :: "string \<Rightarrow> string \<Rightarrow> bool" where
  "str_includes [] t = (t = [])"
| "str_includes (c # s) t = (prefix t (c # s) \<or> str_includes s t)"

text \<open>
  A number is represented by the decimal that the language prints for it (the shortest
  decimal that reads back as the same double), a rational. The representation is
  monotone, so \<open>a - b\<close> has the sign of the difference of the representations. NaN and
  the infinities are not values of the embedding; JSON cannot carry them.
  \<open>String_num\<close> is \<open>String(v)\<close> on numbers in the range the language prints without an
  exponent.
\<close>

type_synonym number = rat

definition digit_char :: "nat \<Rightarrow> char" where
  "digit_char d = char_of (48 + d)"

fun digits :: "nat \<Rightarrow> string" where
  "digits n = (if n < 10 then [digit_char n] else digits (n div 10) @ [digit_char (n mod 10)])"

fun frac_digits :: "nat \<Rightarrow> number \<Rightarrow> string" where
  "frac_digits 0 f = []"
| "frac_digits (Suc k) f =
     (if f = 0 then []
      else let d = \<lfloor>f * 10\<rfloor> in digit_char (nat d) # frac_digits k (f * 10 - of_int d))"

definition String_num :: "number \<Rightarrow> string" where
  "String_num x =
     (let a = \<bar>x\<bar>; i = \<lfloor>a\<rfloor>; f = a - of_int i
      in (if x < 0 then ''-'' else '''') @ digits (nat i) @
         (if f = 0 then '''' else ''.'' @ frac_digits 17 f))"

datatype jsval = JStr string | JNum number

fun String_js :: "jsval \<Rightarrow> string" where
  "String_js (JStr s) = s"
| "String_js (JNum x) = String_num x"

subsection \<open>Rows, the stats object and charts\<close>

record row =
  date :: string
  product :: string
  region :: string
  sales :: number
  revenue :: number

text \<open>
  A row has the five properties of the table's columns, two of them numbers (the
  backend that produces the rows is not part of the sources).
\<close>

definition Object_values :: "row \<Rightarrow> jsval list" where
  "Object_values r =
     [JStr (date r), JStr (product r), JStr (region r), JNum (sales r), JNum (revenue r)]"

text \<open>
  The body of a JSON response, as the handlers read it: every property may be absent
  (\<open>undefined\<close> is \<open>None\<close>). The stats endpoint fills the first six, the auth and
  schedule endpoints \<open>data.token\<close> and \<open>data.error\<close>.
\<close>

record data =
  total_sales :: "number option"
  total_revenue :: "number option"
  daily_sales :: "(string \<times> number) list option"
  sales_by_product :: "(string \<times> number) list option"
  sales_by_region :: "(string \<times> number) list option"
  table_data :: "row list option"
  data_token :: "string option"
  data_error :: "string option"

text \<open>
  What \<open>fetch\<close> and the body reader give back: the promise of \<open>fetch\<close> rejects on a
  transport failure; otherwise there is a response with its \<open>ok\<close> flag (status 2xx) and
  a body, \<open>None\<close> when it is not JSON (\<open>res.json()\<close> rejects).
\<close>

datatype 'a response = TransportFailure | Response bool "'a option"

datatype js_error = TypeError | SyntaxError

datatype outcome = Fulfilled | Rejected js_error

record chart =
  chart_type :: string
  labels :: "string list"
  chart_data :: "number list"
  tickColor :: "string option"

subsection \<open>Requests\<close>

text \<open>
  A \<open>URLSearchParams\<close> is the list of its pairs, in insertion order. \<open>append\<close> adds a
  pair at the end; \<open>set\<close> gives the first pair of that name the new value and removes
  the others, or appends when there is none. A request is its URL without the query
  string, and its parameters or its headers and body; that the export URL ends in \<open>?\<close>
  also when there is no parameter is not represented.
\<close>

type_synonym params = "(string \<times> string) list"

definition append_param :: "string \<Rightarrow> string \<Rightarrow> params \<Rightarrow> params" where
  "append_param k v ps = ps @ [(k, v)]"

fun replace_first :: "string \<Rightarrow> string \<Rightarrow> params \<Rightarrow> params" where
  "replace_first k v [] = []"
| "replace_first k v (p # ps) =
     (if fst p = k then (k, v) # filter (\<lambda>q. fst q \<noteq> k) ps else p # replace_first k v ps)"

definition set_param :: "string \<Rightarrow> string \<Rightarrow> params \<Rightarrow> params" where
  "set_param k v ps = (if k \<in> fst ` set ps then replace_first k v ps else ps @ [(k, v)])"

datatype body =
    Credentials string string
  | Report "chart \<times> chart \<times> chart" "number \<times> number"
  | Schedule string "string option" "string option" "string option" "string option" string

datatype request =
    Get string params
  | Post string "(string \<times> string) list" body

definition API_BASE :: string where "API_BASE = ''http://127.0.0.1:5000''"
definition STATS_URL :: string where "STATS_URL = API_BASE @ ''/api/stats''"
definition EXPORT_PDF :: string where "EXPORT_PDF = API_BASE @ ''/api/export/pdf''"
definition SCHEDULE_URL :: string where "SCHEDULE_URL = API_BASE @ ''/api/schedule-email''"
definition LOGIN_URL :: string where "LOGIN_URL = API_BASE @ ''/api/login''"
definition REGISTER_URL :: string where "REGISTER_URL = API_BASE @ ''/api/register''"

subsection \<open>The state\<close>

datatype key = Date | Product | Region | Sales | Revenue

text \<open>
  The module-level variables, the entry of local storage, the DOM nodes the handlers
  read and write, and what leaves the page: the notifications shown, the requests
  issued, the navigation and the downloads. The two summary cards hold the number whose
  locale form they display; \<open>tbody\<close> holds the markup of each table row.
\<close>

record state =
  dailySalesChart :: "chart option"
  productChart :: "chart option"
  regionChart :: "chart option"
  currentData :: "data option"
  fullTableData :: "row list"
  sortDirection :: "key \<rightharpoonup> bool"
  token :: "string option"
  dashboard_token :: "string option"
  startDate :: string
  endDate :: string
  regionFilter :: string
  productFilter :: string
  timeFilter :: string
  searchInput :: string
  authEmail :: string
  authPassword :: string
  schedTargetEmail :: string
  total_sales_card :: number
  total_revenue_card :: number
  tbody :: "string list"
  modal_hidden :: bool
  dark :: bool
  alerts :: "string list"
  requests :: "request list"
  location_href :: "(string \<times> params) option"
  downloads :: "string list"

subsection \<open>Truthiness\<close>

text \<open>
  \<open>x || d\<close> on an optional string: \<open>undefined\<close> and the empty string are falsy. On an
  optional number the default of the source is \<open>0\<close>, which is also what a falsy number is.
\<close>

definition truthy :: "string option \<Rightarrow> bool" where
  "truthy x = (case x of None \<Rightarrow> False | Some s \<Rightarrow> s \<noteq> '''')"

definition or_str :: "string option \<Rightarrow> string \<Rightarrow> string" where
  "or_str x d = (if truthy x then the x else d)"

definition or_zero :: "number option \<Rightarrow> number" where
  "or_zero x = (case x of None \<Rightarrow> 0 | Some v \<Rightarrow> v)"

definition or_empty :: "'a list option \<Rightarrow> 'a list" where
  "or_empty x = (case x of None \<Rightarrow> [] | Some xs \<Rightarrow> xs)"

definition or_null :: "string \<Rightarrow> string option" where
  "or_null s = (if s = '''' then None else Some s)"

text \<open>\<open>String(x)\<close> of an optional string, as \<open>localStorage.setItem\<close> stores it.\<close>

definition String_opt :: "string option \<Rightarrow> string" where
  "String_opt x = (case x of None \<Rightarrow> ''undefined'' | Some s \<Rightarrow> s)"

subsection \<open>Fetch and render\<close>

definition getTickColor :: "state \<Rightarrow> string" where
  "getTickColor st = (if dark st then ''#f3f4f6'' else ''#666'')"

definition updateSummaryCards :: "data \<Rightarrow> state \<Rightarrow> state" where
  "updateSummaryCards d st =
     st\<lparr>total_sales_card := or_zero (total_sales d),
        total_revenue_card := or_zero (total_revenue d)\<rparr>"

definition renderCharts :: "data \<Rightarrow> state \<Rightarrow> state" where
  "renderCharts d st =
     (let dailyLabels = map fst (or_empty (daily_sales d));
          dailyValues = map snd (or_empty (daily_sales d));
          productLabels = map fst (or_empty (sales_by_product d));
          productValues = map snd (or_empty (sales_by_product d));
          regionLabels = map fst (or_empty (sales_by_region d));
          regionValues = map snd (or_empty (sales_by_region d))
      in st\<lparr>dailySalesChart :=
                Some \<lparr>chart_type = ''line'', labels = dailyLabels, chart_data = dailyValues,
                      tickColor = Some (getTickColor st)\<rparr>,
              productChart :=
                Some \<lparr>chart_type = ''pie'', labels = productLabels, chart_data = productValues,
                      tickColor = None\<rparr>,
              regionChart :=
                Some \<lparr>chart_type = ''bar'', labels = regionLabels, chart_data = regionValues,
                      tickColor = Some (getTickColor st)\<rparr>\<rparr>)"

definition tr_innerHTML :: "row \<Rightarrow> string" where
  "tr_innerHTML r =
     ''<td>'' @ date r @ ''</td><td>'' @ product r @ ''</td><td>'' @ region r @
     ''</td><td>'' @ String_num (sales r) @ ''</td><td>$'' @ String_num (revenue r) @ ''</td>''"

definition renderTable :: "row list option \<Rightarrow> state \<Rightarrow> state" where
  "renderTable d st =
     st\<lparr>fullTableData := or_empty d, tbody := map tr_innerHTML (or_empty d)\<rparr>"

record filters =
  filters_region :: "string option"
  filters_product :: "string option"

definition no_filters :: filters where
  "no_filters = \<lparr>filters_region = None, filters_product = None\<rparr>"

definition stats_params :: "filters \<Rightarrow> state \<Rightarrow> params" where
  "stats_params fs st =
     (let params = [];
          params = (if startDate st \<noteq> '''' then append_param ''start_date'' (startDate st) params
                    else params);
          params = (if endDate st \<noteq> '''' then append_param ''end_date'' (endDate st) params
                    else params);
          params = (if regionFilter st \<noteq> '''' then append_param ''region'' (regionFilter st) params
                    else params);
          params = (if productFilter st \<noteq> ''''
                    then append_param ''product'' (productFilter st) params else params);
          params = (if truthy (filters_region fs)
                    then set_param ''region'' (the (filters_region fs)) params else params);
          params = (if truthy (filters_product fs)
                    then set_param ''product'' (the (filters_product fs)) params else params)
      in params)"

definition fetchAndRender :: "filters \<Rightarrow> data response \<Rightarrow> state \<Rightarrow> outcome \<times> state" where
  "fetchAndRender fs res st =
     (let st1 = st\<lparr>requests := requests st @ [Get STATS_URL (stats_params fs st)]\<rparr>
      in case res of
           TransportFailure \<Rightarrow> (Rejected TypeError, st1)
         | Response ok None \<Rightarrow> (Rejected SyntaxError, st1)
         | Response ok (Some d) \<Rightarrow>
             (Fulfilled,
              renderTable (table_data d)
                (renderCharts d (updateSummaryCards d (st1\<lparr>currentData := Some d\<rparr>)))))"

text \<open>\<open>xs.slice(-n)\<close>: the last \<open>n\<close> elements, all of them when there are fewer.\<close>

definition slice_last :: "nat \<Rightarrow> 'a list \<Rightarrow> 'a list" where
  "slice_last n xs = drop (length xs - n) xs"

text \<open>
  \<open>applyFiltersAndRender\<close>: the default \<open>sort()\<close> orders strings by their code units,
  which on lists of characters is the lexicographic order. \<open>lastDates\<close> is not empty
  where it is read, since \<open>sorted\<close> is not and \<open>count\<close> is 3 or 5.
\<close>

definition applyFiltersAndRender ::
    "row list response \<Rightarrow> data response \<Rightarrow> state \<Rightarrow> outcome \<times> state" where
  "applyFiltersAndRender rows_res res st =
     (let preset = timeFilter st
      in if preset = ''last-3-days'' \<or> preset = ''last-5-days''
         then (let st1 = st\<lparr>requests := requests st @ [Get (API_BASE @ ''/api/data'') []]\<rparr>
               in case rows_res of
                    TransportFailure \<Rightarrow> (Rejected TypeError, st1)
                  | Response ok None \<Rightarrow> (Rejected SyntaxError, st1)
                  | Response ok (Some rows) \<Rightarrow>
                      (let sorted = sort (map date rows)
                       in if sorted = [] then (Fulfilled, st1)
                          else (let count = (if preset = ''last-3-days'' then 3 else 5);
                                    lastDates = slice_last count sorted
                                in fetchAndRender no_filters res
                                     (st1\<lparr>startDate := hd lastDates,
                                          endDate := last lastDates\<rparr>))))
         else fetchAndRender no_filters res
                (if preset = ''all'' then st\<lparr>startDate := '''', endDate := ''''\<rparr> else st))"

subsection \<open>Table search and sorting\<close>

text \<open>The \<open>input\<close> listener of \<open>initSearch\<close>; \<open>v\<close> is the text of the search box.\<close>

definition row_matches :: "string \<Rightarrow> row \<Rightarrow> bool" where
  "row_matches term r =
     list_ex (\<lambda>v. str_includes (toLowerCase (String_js v)) term) (Object_values r)"

definition onSearchInput :: "string \<Rightarrow> state \<Rightarrow> state" where
  "onSearchInput v st =
     (let term = toLowerCase v;
          filtered = filter (row_matches term) (fullTableData st)
      in renderTable (Some filtered) (st\<lparr>searchInput := v\<rparr>))"

text \<open>
  \<open>Array.prototype.sort\<close> with a comparator is stable (ECMAScript 2019), and for a
  consistent comparator the sorted, stable result is unique; it is computed here by
  insertion from the right, an element staying before the elements it is not greater
  than.
\<close>

fun js_insert :: "('a \<Rightarrow> 'a \<Rightarrow> number) \<Rightarrow> 'a \<Rightarrow> 'a list \<Rightarrow> 'a list" where
  "js_insert cmp x [] = [x]"
| "js_insert cmp x (y # ys) = (if cmp x y \<le> 0 then x # y # ys else y # js_insert cmp x ys)"

definition js_sort :: "('a \<Rightarrow> 'a \<Rightarrow> number) \<Rightarrow> 'a list \<Rightarrow> 'a list" where
  "js_sort cmp xs = foldr (js_insert cmp) xs []"

text \<open>
  \<open>a.localeCompare(b)\<close> depends on the collation of the browser's locale. A collation
  is given by its sort key \<open>ck\<close>, a function into a linear order: the comparison of two
  strings is the comparison of their sort keys.
\<close>

definition localeCompare :: "(string \<Rightarrow> 'k::linorder) \<Rightarrow> string \<Rightarrow> string \<Rightarrow> number" where
  "localeCompare ck a b = (if ck a < ck b then - 1 else if ck b < ck a then 1 else 0)"

text \<open>
  \<open>a[key]\<close>, read as a number in the branch of the numeric columns and as a string in
  the other branch. The headers of the table carry the five column names (the page's
  markup is not part of the sources).
\<close>

definition num_at :: "key \<Rightarrow> row \<Rightarrow> number" where
  "num_at k r = (if k = Sales then sales r else revenue r)"

definition str_at :: "key \<Rightarrow> row \<Rightarrow> string" where
  "str_at k r = (if k = Date then date r else if k = Product then product r else region r)"

definition compareRows ::
    "(string \<Rightarrow> 'k::linorder) \<Rightarrow> key \<Rightarrow> bool \<Rightarrow> row \<Rightarrow> row \<Rightarrow> number" where
  "compareRows ck k dir a b =
     (if k = Sales \<or> k = Revenue
      then (if dir then num_at k a - num_at k b else num_at k b - num_at k a)
      else (if dir then localeCompare ck (str_at k a) (str_at k b)
            else localeCompare ck (str_at k b) (str_at k a)))"

text \<open>\<open>!sortDirection[key]\<close>: an absent entry is falsy.\<close>

definition toggled :: "bool option \<Rightarrow> bool" where
  "toggled d = (case d of None \<Rightarrow> True | Some b \<Rightarrow> \<not> b)"

text \<open>The \<open>click\<close> listener that \<open>initTableSorting\<close> puts on the header of column \<open>k\<close>.\<close>

definition onHeaderClick :: "(string \<Rightarrow> 'k::linorder) \<Rightarrow> key \<Rightarrow> state \<Rightarrow> state" where
  "onHeaderClick ck k st =
     (let st1 = st\<lparr>sortDirection := (sortDirection st)(k \<mapsto> toggled (sortDirection st k))\<rparr>;
          sorted = js_sort (compareRows ck k (the (sortDirection st1 k))) (fullTableData st1)
      in renderTable (Some sorted) st1)"

subsection \<open>Exports\<close>

definition export_params :: "state \<Rightarrow> params" where
  "export_params st =
     (let params = [];
          params = (if regionFilter st \<noteq> '''' then append_param ''region'' (regionFilter st) params
                    else params);
          params = (if productFilter st \<noteq> ''''
                    then append_param ''product'' (productFilter st) params else params);
          params = (if startDate st \<noteq> '''' then append_param ''start_date'' (startDate st) params
                    else params);
          params = (if endDate st \<noteq> '''' then append_param ''end_date'' (endDate st) params
                    else params)
      in params)"

definition exportData :: "string \<Rightarrow> state \<Rightarrow> state" where
  "exportData format st =
     st\<lparr>location_href := Some (API_BASE @ ''/api/export/'' @ format, export_params st)\<rparr>"

text \<open>
  \<open>exportPDF\<close>: the request carries the images of the three charts (a chart stands
  for its image) and the content of the two summary cards, which the source parses back
  from their text; the response is offered as a download.
\<close>

definition exportPDF :: "'a response \<Rightarrow> state \<Rightarrow> outcome \<times> state" where
  "exportPDF res st =
     (if dailySalesChart st = None \<or> productChart st = None \<or> regionChart st = None
      then (Fulfilled, st\<lparr>alerts := alerts st @ [''Charts not ready'']\<rparr>)
      else (let charts = (the (dailySalesChart st), the (productChart st), the (regionChart st));
                summary = (total_sales_card st, total_revenue_card st);
                st1 = st\<lparr>requests := requests st @
                         [Post EXPORT_PDF [(''Content-Type'', ''application/json'')]
                            (Report charts summary)]\<rparr>
            in case res of
                 TransportFailure \<Rightarrow> (Rejected TypeError, st1)
               | Response ok b \<Rightarrow>
                   (Fulfilled, st1\<lparr>downloads := downloads st1 @ [''dashboard_report.pdf'']\<rparr>)))"

subsection \<open>Register, login and scheduling\<close>

definition registerUser :: "data response \<Rightarrow> state \<Rightarrow> outcome \<times> state" where
  "registerUser res st =
     (let email = authEmail st; password = authPassword st
      in if email = '''' \<or> password = ''''
         then (Fulfilled, st\<lparr>alerts := alerts st @ [''Email & password required'']\<rparr>)
         else (let st1 = st\<lparr>requests := requests st @
                           [Post REGISTER_URL [(''Content-Type'', ''application/json'')]
                              (Credentials email password)]\<rparr>
               in case res of
                    TransportFailure \<Rightarrow> (Rejected TypeError, st1)
                  | Response ok None \<Rightarrow> (Rejected SyntaxError, st1)
                  | Response ok (Some d) \<Rightarrow>
                      (if ok
                       then (Fulfilled,
                             st1\<lparr>token := data_token d,
                                 dashboard_token := Some (String_opt (data_token d)),
                                 alerts := alerts st1 @ [''Registered & logged in''],
                                 modal_hidden := True\<rparr>)
                       else (Fulfilled,
                             st1\<lparr>alerts := alerts st1 @
                                   [or_str (data_error d) ''Registration failed'']\<rparr>))))"

definition loginUser :: "data response \<Rightarrow> state \<Rightarrow> outcome \<times> state" where
  "loginUser res st =
     (let email = authEmail st; password = authPassword st
      in if email = '''' \<or> password = ''''
         then (Fulfilled, st\<lparr>alerts := alerts st @ [''Email & password required'']\<rparr>)
         else (let st1 = st\<lparr>requests := requests st @
                           [Post LOGIN_URL [(''Content-Type'', ''application/json'')]
                              (Credentials email password)]\<rparr>
               in case res of
                    TransportFailure \<Rightarrow> (Rejected TypeError, st1)
                  | Response ok None \<Rightarrow> (Rejected SyntaxError, st1)
                  | Response ok (Some d) \<Rightarrow>
                      (if ok
                       then (Fulfilled,
                             st1\<lparr>token := data_token d,
                                 dashboard_token := Some (String_opt (data_token d)),
                                 alerts := alerts st1 @ [''Logged in''],
                                 modal_hidden := True\<rparr>)
                       else (Fulfilled,
                             st1\<lparr>alerts := alerts st1 @
                                   [or_str (data_error d) ''Login failed'']\<rparr>))))"

text \<open>
  \<open>scheduleEmail\<close>: \<open>answer\<close> is what the user types into the prompt, \<open>None\<close> when the
  prompt is cancelled; it is read only when the target field is empty.
\<close>

definition scheduleEmail :: "string option \<Rightarrow> data response \<Rightarrow> state \<Rightarrow> outcome \<times> state" where
  "scheduleEmail answer res st =
     (if \<not> truthy (token st)
      then (Fulfilled, st\<lparr>alerts := alerts st @ [''Please login/register first.'']\<rparr>)
      else (let target = (if schedTargetEmail st \<noteq> '''' then Some (schedTargetEmail st)
                          else answer)
            in if \<not> truthy target
               then (Fulfilled, st\<lparr>alerts := alerts st @ [''Target email required.'']\<rparr>)
               else (let body = Schedule (the target) (or_null (regionFilter st))
                                  (or_null (productFilter st)) (or_null (startDate st))
                                  (or_null (endDate st)) ''weekly'';
                         st1 = st\<lparr>requests := requests st @
                                  [Post SCHEDULE_URL
                                     [(''Content-Type'', ''application/json''),
                                      (''Authorization'', ''Bearer '' @ the (token st))]
                                     body]\<rparr>
                     in case res of
                          TransportFailure \<Rightarrow> (Rejected TypeError, st1)
                        | Response ok None \<Rightarrow> (Rejected SyntaxError, st1)
                        | Response ok (Some d) \<Rightarrow>
                            (if ok
                             then (Fulfilled,
                                   st1\<lparr>alerts := alerts st1 @
                                         [''Scheduled! You will receive reports weekly.''],
                                       modal_hidden := True\<rparr>)
                             else (Fulfilled,
                                   st1\<lparr>alerts := alerts st1 @
                                         [or_str (data_error d) ''Failed to schedule'']\<rparr>)))))"

subsection \<open>The page when the script is loaded\<close>

text \<open>
  The module-level initialisers, with \<open>stored\<close> the entry of local storage:
  \<open>token = localStorage.getItem("dashboard_token") || null\<close>. The form fields are empty
  and nothing has been rendered.
\<close>

definition loaded :: "string option \<Rightarrow> state" where
  "loaded stored =
     \<lparr>dailySalesChart = None, productChart = None, regionChart = None,
      currentData = None, fullTableData = [], sortDirection = Map.empty,
      token = (if truthy stored then stored else None), dashboard_token = stored,
      startDate = '''', endDate = '''', regionFilter = '''', productFilter = '''',
      timeFilter = '''', searchInput = '''', authEmail = '''', authPassword = '''',
      schedTargetEmail = '''', total_sales_card = 0, total_revenue_card = 0, tbody = [],
      modal_hidden = True, dark = False, alerts = [], requests = [],
      location_href = None, downloads = []\<rparr>"

subsection \<open>The specification's vocabulary\<close>

text \<open>
  The order the specification asks of a sorted table: numeric on \<open>sales\<close> and
  \<open>revenue\<close>, by the locale's collation on \<open>date\<close>, \<open>product\<close> and \<open>region\<close>;
  ascending when \<open>dir\<close> holds and descending otherwise. Two rows have the same key when
  each is below the other.
\<close>

fun key_le :: "(string \<Rightarrow> 'k::linorder) \<Rightarrow> key \<Rightarrow> row \<Rightarrow> row \<Rightarrow> bool" where
  "key_le ck Date a b = (ck (date a) \<le> ck (date b))"
| "key_le ck Product a b = (ck (product a) \<le> ck (product b))"
| "key_le ck Region a b = (ck (region a) \<le> ck (region b))"
| "key_le ck Sales a b = (sales a \<le> sales b)"
| "key_le ck Revenue a b = (revenue a \<le> revenue b)"

definition ordered_by :: "(string \<Rightarrow> 'k::linorder) \<Rightarrow> key \<Rightarrow> bool \<Rightarrow> row \<Rightarrow> row \<Rightarrow> bool" where
  "ordered_by ck k dir a b = (if dir then key_le ck k a b else key_le ck k b a)"

definition same_key :: "(string \<Rightarrow> 'k::linorder) \<Rightarrow> key \<Rightarrow> row \<Rightarrow> row \<Rightarrow> bool" where
  "same_key ck k a b = (key_le ck k a b \<and> key_le ck k b a)"

text \<open>A sequence of clicks on table headers, in order.\<close>

definition clicks :: "(string \<Rightarrow> 'k::linorder) \<Rightarrow> key list \<Rightarrow> state \<Rightarrow> state" where
  "clicks ck ks st = foldl (\<lambda>s k. onHeaderClick ck k s) st ks"

text \<open>
  The search criterion in the specification's words: the lowercased string form of some
  field contains the lowercased term.
\<close>

definition field_contains :: "string \<Rightarrow> row \<Rightarrow> bool" where
  "field_contains term r \<longleftrightarrow>
     (\<exists>v \<in> set (Object_values r). \<exists>pre post.
        toLowerCase (String_js v) = pre @ toLowerCase term @ post)"

text \<open>
  The effective range of a preset in the specification's words: of the \<open>n\<close> largest
  distinct date strings, the minimum and the maximum.
\<close>

definition largest_distinct :: "nat \<Rightarrow> string list \<Rightarrow> string list" where
  "largest_distinct n dates = take n (rev (sort (remdups dates)))"

definition spec_effective_range :: "nat \<Rightarrow> string list \<Rightarrow> (string \<times> string) option" where
  "spec_effective_range n dates =
     (let top = largest_distinct n dates
      in if top = [] then None else Some (Min (set top), Max (set top)))"

text \<open>A response with a 2xx status.\<close>

definition is_ok :: "'a response \<Rightarrow> bool" where
  "is_ok res = (case res of TransportFailure \<Rightarrow> False | Response ok b \<Rightarrow> ok)"

subsection \<open>Sample inputs\<close>

text \<open>The two rows of the specification's scenario and a stats object carrying them.\<close>

definition row1 :: row where
  "row1 = \<lparr>date = ''2024-01-01'', product = ''A'', region = ''North'', sales = 10, revenue = 100\<rparr>"

definition row2 :: row where
  "row2 = \<lparr>date = ''2024-01-02'', product = ''B'', region = ''South'', sales = 5, revenue = 50\<rparr>"

definition sample_data :: data where
  "sample_data =
     \<lparr>total_sales = Some 15, total_revenue = Some 150,
      daily_sales = Some [(''2024-01-01'', 10), (''2024-01-02'', 5)],
      sales_by_product = Some [(''A'', 10), (''B'', 5)],
      sales_by_region = Some [(''North'', 10), (''South'', 5)],
      table_data = Some [row1, row2], data_token = None, data_error = None\<rparr>"

text \<open>The page after it has loaded and the first stats fetch has succeeded.\<close>

definition fetched :: state where
  "fetched = snd (fetchAndRender no_filters (Response True (Some sample_data)) (loaded None))"

text \<open>The JSON body \<open>{"error": "Internal Server Error"}\<close> of a 500 response.\<close>

definition error_data :: data where
  "error_data =
     \<lparr>total_sales = None, total_revenue = None, daily_sales = None, sales_by_product = None,
      sales_by_region = None, table_data = None, data_token = None,
      data_error = Some ''Internal Server Error''\<rparr>"

text \<open>Raw rows with two products sold on the last day.\<close>

definition dup_rows :: "row list" where
  "dup_rows =
     [\<lparr>date = ''2024-01-01'', product = ''A'', region = ''North'', sales = 10, revenue = 100\<rparr>,
      \<lparr>date = ''2024-01-02'', product = ''A'', region = ''North'', sales = 4, revenue = 40\<rparr>,
      \<lparr>date = ''2024-01-03'', product = ''A'', region = ''North'', sales = 7, revenue = 70\<rparr>,
      \<lparr>date = ''2024-01-03'', product = ''B'', region = ''South'', sales = 5, revenue = 50\<rparr>]"

text \<open>Raw rows on the four dates of the specification's example.\<close>

definition example_rows :: "row list" where
  "example_rows =
     [\<lparr>date = ''2024-01-01'', product = ''A'', region = ''North'', sales = 10, revenue = 100\<rparr>,
      \<lparr>date = ''2024-01-02'', product = ''A'', region = ''North'', sales = 4, revenue = 40\<rparr>,
      \<lparr>date = ''2024-01-03'', product = ''A'', region = ''North'', sales = 7, revenue = 70\<rparr>,
      \<lparr>date = ''2024-01-05'', product = ''B'', region = ''South'', sales = 5, revenue = 50\<rparr>]"

text \<open>Three rows, the first and the last with equal sales, and the table showing them.\<close>

definition tie_a :: row where
  "tie_a = \<lparr>date = ''2024-01-03'', product = ''A'', region = ''North'', sales = 5, revenue = 50.5\<rparr>"

definition tie_b :: row where
  "tie_b = \<lparr>date = ''2024-01-01'', product = ''B'', region = ''South'', sales = 3, revenue = 30\<rparr>"

definition tie_c :: row where
  "tie_c = \<lparr>date = ''2024-01-02'', product = ''C'', region = ''East'', sales = 5, revenue = 20\<rparr>"

definition tie_table :: state where
  "tie_table =
     snd (fetchAndRender no_filters
            (Response True (Some (sample_data\<lparr>table_data := Some [tie_a, tie_b, tie_c]\<rparr>)))
            (loaded None))"

text \<open>The page with a start date and a region chosen.\<close>

definition picked :: state where
  "picked = (loaded None)\<lparr>startDate := ''2024-01-01'', regionFilter := ''North''\<rparr>"

text \<open>The page of a logged-in user with the auth form filled in.\<close>

definition form_filled :: state where
  "form_filled = (loaded (Some ''old-token''))\<lparr>authEmail := ''a@b.c'', authPassword := ''pw''\<rparr>"

section \<open>Properties\<close>

subsection \<open>What the render functions leave alone\<close>

lemma requests_render:
  "requests (renderTable t st) = requests st"
  "requests (renderCharts d st) = requests st"
  "requests (updateSummaryCards d st) = requests st"
  by (simp_all add: renderTable_def renderCharts_def updateSummaryCards_def Let_def)

lemma requests_fetchAndRender:
  "requests (snd (fetchAndRender fs res st)) = requests st @ [Get STATS_URL (stats_params fs st)]"
  by (simp add: fetchAndRender_def Let_def requests_render split: response.split option.split)

lemma dates_fetchAndRender:
  "startDate (snd (fetchAndRender fs res st)) = startDate st"
  "endDate (snd (fetchAndRender fs res st)) = endDate st"
  by (simp_all add: fetchAndRender_def renderTable_def renderCharts_def updateSummaryCards_def
      Let_def split: response.split option.split)

lemma onSearchInput_eq:
  "onSearchInput v st =
     st\<lparr>searchInput := v,
        fullTableData := filter (row_matches (toLowerCase v)) (fullTableData st),
        tbody := map tr_innerHTML (filter (row_matches (toLowerCase v)) (fullTableData st))\<rparr>"
  by (simp add: onSearchInput_def renderTable_def or_empty_def Let_def)

lemma onHeaderClick_eq:
  "onHeaderClick ck k st =
     st\<lparr>sortDirection := (sortDirection st)(k \<mapsto> toggled (sortDirection st k)),
        fullTableData := js_sort (compareRows ck k (toggled (sortDirection st k))) (fullTableData st),
        tbody := map tr_innerHTML
                   (js_sort (compareRows ck k (toggled (sortDirection st k))) (fullTableData st))\<rparr>"
  by (simp add: onHeaderClick_def renderTable_def or_empty_def Let_def)

subsection \<open>A failed stats fetch\<close>

text \<open>
  When the promise of \<open>fetchAndRender\<close> rejects (no response, or a body that is not
  JSON), nothing but the request log has changed: the cache and the table are as before.
\<close>

lemma fetchAndRender_rejected_keeps_state:
  "fst (fetchAndRender fs res st) \<noteq> Fulfilled \<Longrightarrow>
     snd (fetchAndRender fs res st) =
       st\<lparr>requests := requests st @ [Get STATS_URL (stats_params fs st)]\<rparr>"
  by (simp add: fetchAndRender_def Let_def split: response.splits option.splits)

lemma fetchAndRender_transport_failure:
  "currentData (snd (fetchAndRender fs TransportFailure st)) = currentData st \<and>
   fullTableData (snd (fetchAndRender fs TransportFailure st)) = fullTableData st \<and>
   tbody (snd (fetchAndRender fs TransportFailure st)) = tbody st"
  by (simp add: fetchAndRender_def Let_def)

text \<open>
  C1. The claim: after every failed stats fetch, a transport failure or a response that
  is not 2xx, \<open>currentData\<close> and the rendered rows are what they were. \<open>fetchAndRender\<close>
  never reads \<open>res.ok\<close>: on the page showing the two sample rows, a 500 response whose
  body is the JSON object \<open>{"error": ...}\<close> is stored as \<open>currentData\<close>, the summary
  cards go to zero and the table is emptied.
\<close>

theorem failed_stats_response_overwrites_cache:
  "currentData fetched = Some sample_data \<and>
   fullTableData fetched = [row1, row2] \<and>
   length (tbody fetched) = 2 \<and>
   \<not> is_ok (Response False (Some error_data)) \<and>
   fst (fetchAndRender no_filters (Response False (Some error_data)) fetched) = Fulfilled \<and>
   currentData (snd (fetchAndRender no_filters (Response False (Some error_data)) fetched)) =
     Some error_data \<and>
   fullTableData (snd (fetchAndRender no_filters (Response False (Some error_data)) fetched)) = [] \<and>
   tbody (snd (fetchAndRender no_filters (Response False (Some error_data)) fetched)) = [] \<and>
   total_sales_card (snd (fetchAndRender no_filters (Response False (Some error_data)) fetched)) = 0"
  by code_simp

subsection \<open>The table depends on the history of searches\<close>

text \<open>
  C2. The claim: between two fetches the rendered rows are a function of the fetched
  dataset, the sort key and the search term alone. \<open>renderTable\<close> stores the rows it is
  given in \<open>fullTableData\<close>, also when they are a filtered view, and the next search
  filters that view: after typing \<open>north\<close> and clearing the box the table shows one row,
  while with the same dataset, the same empty term and no sort it showed two after the
  fetch.
\<close>

theorem search_result_depends_on_history:
  "tbody fetched =
     [''<td>2024-01-01</td><td>A</td><td>North</td><td>10</td><td>$100</td>'',
      ''<td>2024-01-02</td><td>B</td><td>South</td><td>5</td><td>$50</td>''] \<and>
   tbody (onSearchInput '''' (onSearchInput ''north'' fetched)) =
     [''<td>2024-01-01</td><td>A</td><td>North</td><td>10</td><td>$100</td>''] \<and>
   fullTableData (onSearchInput '''' (onSearchInput ''north'' fetched)) = [row1] \<and>
   currentData (onSearchInput '''' (onSearchInput ''north'' fetched)) = currentData fetched \<and>
   searchInput (onSearchInput '''' (onSearchInput ''north'' fetched)) = searchInput fetched \<and>
   sortDirection (onSearchInput '''' (onSearchInput ''north'' fetched)) = sortDirection fetched"
proof -
  have "tbody fetched =
     [''<td>2024-01-01</td><td>A</td><td>North</td><td>10</td><td>$100</td>'',
      ''<td>2024-01-02</td><td>B</td><td>South</td><td>5</td><td>$50</td>'']"
    by code_simp
  moreover have "tbody (onSearchInput '''' (onSearchInput ''north'' fetched)) =
     [''<td>2024-01-01</td><td>A</td><td>North</td><td>10</td><td>$100</td>'']"
    by code_simp
  moreover have "fullTableData (onSearchInput '''' (onSearchInput ''north'' fetched)) = [row1]"
    by code_simp
  moreover have "searchInput fetched = ''''"
    by code_simp
  ultimately show ?thesis
    by (simp add: onSearchInput_eq)
qed

subsection \<open>Preset date ranges\<close>

lemma Min_sorted_hd:
  fixes xs :: "'a::linorder list"
  assumes "sorted xs" "xs \<noteq> []"
  shows "Min (set xs) = hd xs"
proof (cases xs)
  case Nil
  with assms show ?thesis by simp
next
  case (Cons a as)
  with assms have "\<forall>y \<in> set xs. a \<le> y" by auto
  with Cons show ?thesis by (intro Min_eqI) auto
qed

lemma Max_sorted_last:
  fixes xs :: "'a::linorder list"
  assumes "sorted xs" "xs \<noteq> []"
  shows "Max (set xs) = last xs"
proof -
  have "\<forall>y \<in> set xs. y \<le> last xs"
    using assms by (induction xs) (auto split: if_splits)
  with assms show ?thesis by (intro Max_eqI) auto
qed

lemma sort_eq_Nil: "sort xs = [] \<longleftrightarrow> xs = []"
  by (metis length_sort length_0_conv)

lemma slice_last_nonempty: "xs \<noteq> [] \<Longrightarrow> 0 < n \<Longrightarrow> slice_last n xs \<noteq> []"
  by (cases xs) (auto simp: slice_last_def)

lemma spec_range_distinct:
  assumes "distinct ds" "ds \<noteq> []" "0 < n"
  shows "spec_effective_range n ds =
           Some (hd (slice_last n (sort ds)), last (slice_last n (sort ds)))"
proof -
  let ?L = "slice_last n (sort ds)"
  have top: "largest_distinct n ds = rev ?L"
    using assms(1) by (simp add: largest_distinct_def slice_last_def take_rev distinct_remdups_id)
  have ne: "?L \<noteq> []"
    using assms by (intro slice_last_nonempty) (auto simp: sort_eq_Nil)
  have srt: "sorted ?L"
    by (simp add: slice_last_def sorted_wrt_drop)
  show ?thesis
    using ne
    by (simp add: spec_effective_range_def top Min_sorted_hd [OF srt ne] Max_sorted_last [OF srt ne])
qed

lemma preset_sets_range:
  assumes "timeFilter st = ''last-3-days'' \<and> n = 3 \<or> timeFilter st = ''last-5-days'' \<and> n = 5"
    and "rows \<noteq> []"
  shows "startDate (snd (applyFiltersAndRender (Response ok (Some rows)) res st)) =
           hd (slice_last n (sort (map date rows))) \<and>
         endDate (snd (applyFiltersAndRender (Response ok (Some rows)) res st)) =
           last (slice_last n (sort (map date rows)))"
  using assms
  by (auto simp: applyFiltersAndRender_def Let_def dates_fetchAndRender sort_eq_Nil)

text \<open>
  Where no date occurs in two raw rows, the preset sets the range the specification
  describes; the specification's own example is such a list.
\<close>

lemma preset_range_distinct_dates:
  assumes "timeFilter st = ''last-3-days'' \<and> n = 3 \<or> timeFilter st = ''last-5-days'' \<and> n = 5"
    and "rows \<noteq> []" and "distinct (map date rows)"
  shows "spec_effective_range n (map date rows) =
           Some (startDate (snd (applyFiltersAndRender (Response ok (Some rows)) res st)),
                 endDate (snd (applyFiltersAndRender (Response ok (Some rows)) res st)))"
proof -
  have "0 < n" using assms(1) by auto
  with assms(2,3) have "spec_effective_range n (map date rows) =
      Some (hd (slice_last n (sort (map date rows))), last (slice_last n (sort (map date rows))))"
    by (intro spec_range_distinct) auto
  with preset_sets_range [OF assms(1,2)] show ?thesis by simp
qed

lemma preset_range_example:
  "map date example_rows = [''2024-01-01'', ''2024-01-02'', ''2024-01-03'', ''2024-01-05''] \<and>
   startDate (snd (applyFiltersAndRender (Response True (Some example_rows)) TransportFailure
                ((loaded None)\<lparr>timeFilter := ''last-3-days''\<rparr>))) = ''2024-01-02'' \<and>
   endDate (snd (applyFiltersAndRender (Response True (Some example_rows)) TransportFailure
              ((loaded None)\<lparr>timeFilter := ''last-3-days''\<rparr>))) = ''2024-01-05''"
  by code_simp

text \<open>
  C3. The claim: for every non-empty list of dates the preset \<open>last-3-days\<close> sets the
  range to the minimum and maximum of the three largest distinct dates.
  \<open>applyFiltersAndRender\<close> takes the last three entries of the sorted list of the raw
  rows' dates, one entry per row: with two rows on 2024-01-03 the range starts on
  2024-01-02 and covers two days, where the three largest distinct dates start on
  2024-01-01.
\<close>

theorem last_3_days_counts_rows_not_days:
  "map date dup_rows = [''2024-01-01'', ''2024-01-02'', ''2024-01-03'', ''2024-01-03''] \<and>
   spec_effective_range 3 (map date dup_rows) = Some (''2024-01-01'', ''2024-01-03'') \<and>
   startDate (snd (applyFiltersAndRender (Response True (Some dup_rows))
                     (Response True (Some sample_data))
                     ((loaded None)\<lparr>timeFilter := ''last-3-days''\<rparr>))) = ''2024-01-02'' \<and>
   endDate (snd (applyFiltersAndRender (Response True (Some dup_rows))
                   (Response True (Some sample_data))
                   ((loaded None)\<lparr>timeFilter := ''last-3-days''\<rparr>))) = ''2024-01-03''"
  by code_simp

subsection \<open>Search\<close>

lemma str_includes_iff: "str_includes s t \<longleftrightarrow> (\<exists>pre post. s = pre @ t @ post)"
proof -
  have "str_includes s t \<longleftrightarrow> sublist t s"
    by (induction s) (auto simp: sublist_Cons_right)
  then show ?thesis by (simp add: sublist_def)
qed

lemma row_matches_iff: "row_matches (toLowerCase term) r \<longleftrightarrow> field_contains term r"
  by (simp add: row_matches_def field_contains_def list_ex_iff str_includes_iff)

text \<open>
  C4. A search keeps exactly the rows of the table's row list in which the lowercased
  string form of some field contains the lowercased term, in their order, and renders
  them; searching again with the same term changes nothing.
\<close>

theorem search_keeps_matching_rows:
  "fullTableData (onSearchInput term st) = filter (field_contains term) (fullTableData st) \<and>
   tbody (onSearchInput term st) =
     map tr_innerHTML (filter (field_contains term) (fullTableData st)) \<and>
   fullTableData (onSearchInput term (onSearchInput term st)) =
     fullTableData (onSearchInput term st) \<and>
   tbody (onSearchInput term (onSearchInput term st)) = tbody (onSearchInput term st)"
  by (simp add: onSearchInput_eq row_matches_iff [abs_def])

theorem search_keeps_matching_rows_witness:
  "''NORTH'' \<noteq> '''' \<and>
   filter (field_contains ''NORTH'') (fullTableData fetched) = [row1] \<and>
   fullTableData (onSearchInput ''NORTH'' (onSearchInput ''NORTH'' fetched)) = [row1]"
proof -
  have "fullTableData (onSearchInput ''NORTH'' fetched) = [row1]"
    by code_simp
  with search_keeps_matching_rows [of "''NORTH''" fetched] show ?thesis
    by simp
qed

subsection \<open>Sorting\<close>

lemma mset_js_insert: "mset (js_insert cmp x ys) = add_mset x (mset ys)"
  by (induction ys) auto

lemma mset_js_sort: "mset (js_sort cmp xs) = mset xs"
  by (induction xs) (auto simp: js_sort_def mset_js_insert)

lemma set_js_insert: "set (js_insert cmp x ys) = insert x (set ys)"
  by (induction ys) auto

lemma sorted_js_insert:
  assumes tot: "\<And>a b. cmp a b \<le> 0 \<or> cmp b a \<le> 0"
    and trans: "\<And>a b c. cmp a b \<le> 0 \<Longrightarrow> cmp b c \<le> 0 \<Longrightarrow> cmp a c \<le> 0"
    and srt: "sorted_wrt (\<lambda>a b. cmp a b \<le> 0) ys"
  shows "sorted_wrt (\<lambda>a b. cmp a b \<le> 0) (js_insert cmp x ys)"
  using srt
proof (induction ys)
  case Nil
  then show ?case by simp
next
  case (Cons y ys)
  show ?case
  proof (cases "cmp x y \<le> 0")
    case True
    with Cons.prems show ?thesis using trans by auto
  next
    case False
    then have "cmp y x \<le> 0" using tot by blast
    with False Cons show ?thesis by (auto simp: set_js_insert)
  qed
qed

lemma sorted_js_sort:
  assumes tot: "\<And>a b. cmp a b \<le> 0 \<or> cmp b a \<le> 0"
    and trans: "\<And>a b c. cmp a b \<le> 0 \<Longrightarrow> cmp b c \<le> 0 \<Longrightarrow> cmp a c \<le> 0"
  shows "sorted_wrt (\<lambda>a b. cmp a b \<le> 0) (js_sort cmp xs)"
proof (induction xs)
  case Nil
  then show ?case by (simp add: js_sort_def)
next
  case (Cons x xs)
  have "js_sort cmp (x # xs) = js_insert cmp x (js_sort cmp xs)"
    by (simp add: js_sort_def)
  with Cons show ?case
    using sorted_js_insert [of cmp "js_sort cmp xs" x, OF tot trans] by simp
qed

text \<open>
  Stability: the elements of a class whose members the comparator does not put apart
  come out in the order they went in.
\<close>

lemma filter_js_insert:
  assumes "\<And>y. y \<in> set ys \<Longrightarrow> P x \<Longrightarrow> P y \<Longrightarrow> cmp x y \<le> 0"
  shows "filter P (js_insert cmp x ys) = (if P x then x # filter P ys else filter P ys)"
  using assms by (induction ys) auto

lemma filter_js_sort:
  assumes "\<And>x y. P x \<Longrightarrow> P y \<Longrightarrow> cmp x y \<le> 0"
  shows "filter P (js_sort cmp xs) = filter P xs"
proof (induction xs)
  case Nil
  then show ?case by (simp add: js_sort_def)
next
  case (Cons x xs)
  have "filter P (js_insert cmp x (js_sort cmp xs)) =
        (if P x then x # filter P (js_sort cmp xs) else filter P (js_sort cmp xs))"
    by (rule filter_js_insert) (rule assms)
  with Cons show ?case by (simp add: js_sort_def)
qed

lemma localeCompare_le: "localeCompare ck a b \<le> 0 \<longleftrightarrow> ck a \<le> ck b"
  by (auto simp: localeCompare_def)

lemma compareRows_le: "compareRows ck k dir a b \<le> 0 \<longleftrightarrow> ordered_by ck k dir a b"
  by (cases k) (auto simp: compareRows_def ordered_by_def num_at_def str_at_def localeCompare_le)

lemma ordered_by_total: "ordered_by ck k dir a b \<or> ordered_by ck k dir b a"
  by (cases k) (auto simp: ordered_by_def)

lemma ordered_by_trans:
  "ordered_by ck k dir a b \<Longrightarrow> ordered_by ck k dir b c \<Longrightarrow> ordered_by ck k dir a c"
  by (cases k) (auto simp: ordered_by_def split: if_splits)

lemma same_key_ordered:
  "same_key ck k x r \<Longrightarrow> same_key ck k y r \<Longrightarrow> ordered_by ck k dir x y"
  by (cases k) (auto simp: ordered_by_def same_key_def)

lemma sorted_compareRows:
  "sorted_wrt (ordered_by ck k dir) (js_sort (compareRows ck k dir) xs)"
proof -
  have "sorted_wrt (\<lambda>a b. compareRows ck k dir a b \<le> 0) (js_sort (compareRows ck k dir) xs)"
  proof (rule sorted_js_sort)
    show "compareRows ck k dir a b \<le> 0 \<or> compareRows ck k dir b a \<le> 0" for a b
      using ordered_by_total [of ck k dir a b] by (simp add: compareRows_le)
    show "compareRows ck k dir a b \<le> 0 \<Longrightarrow> compareRows ck k dir b c \<le> 0 \<Longrightarrow>
          compareRows ck k dir a c \<le> 0" for a b c
      using ordered_by_trans [of ck k dir a b c] by (simp add: compareRows_le)
  qed
  then show ?thesis by (simp add: compareRows_le)
qed

lemma stable_compareRows:
  "filter (\<lambda>x. same_key ck k x r) (js_sort (compareRows ck k dir) xs) =
   filter (\<lambda>x. same_key ck k x r) xs"
  by (rule filter_js_sort) (simp add: compareRows_le same_key_ordered)

text \<open>
  C5. A click on the header of column \<open>k\<close> renders the rows of the table's row list
  rearranged in the order of \<open>k\<close> (numeric for \<open>sales\<close> and \<open>revenue\<close>, by collation for
  the string columns), ascending or descending as the direction recorded for \<open>k\<close> says,
  and the rows with the same key keep their relative order.
\<close>

theorem table_sort_ordered_and_stable:
  "\<exists>dir out.
     sortDirection (onHeaderClick ck k st) k = Some dir \<and>
     fullTableData (onHeaderClick ck k st) = out \<and>
     tbody (onHeaderClick ck k st) = map tr_innerHTML out \<and>
     mset out = mset (fullTableData st) \<and>
     sorted_wrt (ordered_by ck k dir) out \<and>
     (\<forall>r. filter (\<lambda>x. same_key ck k x r) out =
          filter (\<lambda>x. same_key ck k x r) (fullTableData st))"
  by (simp add: onHeaderClick_eq mset_js_sort sorted_compareRows stable_compareRows)

theorem table_sort_ordered_and_stable_witness:
  "fullTableData (onHeaderClick (\<lambda>s. s) Sales tie_table) = [tie_b, tie_a, tie_c] \<and>
   filter (\<lambda>x. same_key (\<lambda>s. s) Sales x tie_a)
     (fullTableData (onHeaderClick (\<lambda>s. s) Sales tie_table)) = [tie_a, tie_c] \<and>
   mset (fullTableData (onHeaderClick (\<lambda>s. s) Sales tie_table)) = mset [tie_a, tie_b, tie_c]"
proof -
  have a: "fullTableData tie_table = [tie_a, tie_b, tie_c]"
    by code_simp
  have b: "filter (\<lambda>x. same_key (\<lambda>s. s) Sales x tie_a) [tie_a, tie_b, tie_c] = [tie_a, tie_c]"
    by code_simp
  have c: "fullTableData (onHeaderClick (\<lambda>s. s) Sales tie_table) = [tie_b, tie_a, tie_c]"
    by code_simp
  from table_sort_ordered_and_stable [of "\<lambda>s. s" Sales tie_table]
  obtain out where o: "fullTableData (onHeaderClick (\<lambda>s. s) Sales tie_table) = out"
    and m: "mset out = mset (fullTableData tie_table)"
    and s: "\<forall>r. filter (\<lambda>x. same_key (\<lambda>s. s) Sales x r) out =
                filter (\<lambda>x. same_key (\<lambda>s. s) Sales x r) (fullTableData tie_table)"
    by blast
  have "filter (\<lambda>x. same_key (\<lambda>s. s) Sales x tie_a)
          (fullTableData (onHeaderClick (\<lambda>s. s) Sales tie_table)) =
        filter (\<lambda>x. same_key (\<lambda>s. s) Sales x tie_a) (fullTableData tie_table)"
    using o s by blast
  also have "\<dots> = [tie_a, tie_c]"
    using a b by (simp only:)
  finally have f: "filter (\<lambda>x. same_key (\<lambda>s. s) Sales x tie_a)
          (fullTableData (onHeaderClick (\<lambda>s. s) Sales tie_table)) = [tie_a, tie_c]" .
  have "mset (fullTableData (onHeaderClick (\<lambda>s. s) Sales tie_table)) = mset [tie_a, tie_b, tie_c]"
    using o m a by (simp only:)
  with c f show ?thesis by blast
qed

subsection \<open>Sort directions\<close>

lemma sortDirection_click:
  "sortDirection (onHeaderClick ck k st) k' =
     (if k' = k then Some (toggled (sortDirection st k)) else sortDirection st k')"
  by (simp add: onHeaderClick_eq)

lemma sortDirection_clicks_other:
  "k \<notin> set ks \<Longrightarrow> sortDirection (clicks ck ks st) k = sortDirection st k"
proof (induction ks arbitrary: st)
  case Nil
  then show ?case by (simp add: clicks_def)
next
  case (Cons a ks)
  have "clicks ck (a # ks) st = clicks ck ks (onHeaderClick ck a st)"
    by (simp add: clicks_def)
  with Cons show ?case by (simp add: sortDirection_click)
qed

text \<open>
  C6. The first click on a column sorts ascending, also after clicks on other columns;
  a second click on the same column flips its direction; and clicks on other columns in
  between leave the column's recorded direction alone, so that returning to it toggles
  from its own last direction. Below, \<open>dir\<close> is the direction that the first of the
  two clicks on \<open>k\<close> records and sorts by.
\<close>

theorem sort_direction_toggles_per_column:
  "(sortDirection st k = None \<and> k \<notin> set ks \<longrightarrow>
      sortDirection (onHeaderClick ck k (clicks ck ks st)) k = Some True) \<and>
   (\<exists>dir. sortDirection (onHeaderClick ck k st) k = Some dir \<and>
      fullTableData (onHeaderClick ck k st) =
        js_sort (compareRows ck k dir) (fullTableData st) \<and>
      sortDirection (onHeaderClick ck k (onHeaderClick ck k st)) k = Some (\<not> dir) \<and>
      (k \<notin> set ks \<longrightarrow>
         sortDirection (onHeaderClick ck k (clicks ck ks (onHeaderClick ck k st))) k =
           Some (\<not> dir)))"
proof -
  have h1: "sortDirection st k = None \<and> k \<notin> set ks \<longrightarrow>
      sortDirection (onHeaderClick ck k (clicks ck ks st)) k = Some True"
    by (simp add: sortDirection_click sortDirection_clicks_other toggled_def)
  have h2: "fullTableData (onHeaderClick ck k st) =
        js_sort (compareRows ck k (toggled (sortDirection st k))) (fullTableData st)"
    by (simp add: onHeaderClick_eq)
  have h3: "sortDirection (onHeaderClick ck k (onHeaderClick ck k st)) k =
        Some (\<not> toggled (sortDirection st k))"
    by (simp add: sortDirection_click toggled_def)
  have h4: "k \<notin> set ks \<longrightarrow>
         sortDirection (onHeaderClick ck k (clicks ck ks (onHeaderClick ck k st))) k =
           Some (\<not> toggled (sortDirection st k))"
    by (simp add: sortDirection_click sortDirection_clicks_other toggled_def)
  from h1 h2 h3 h4 show ?thesis
    by (simp add: sortDirection_click)
qed

theorem sort_direction_toggles_per_column_witness:
  "sortDirection fetched Sales = None \<and> Sales \<notin> set [Product, Date] \<and>
   sortDirection (onHeaderClick (\<lambda>s. s) Sales (clicks (\<lambda>s. s) [Product, Date] fetched)) Sales =
     Some True \<and>
   sortDirection (onHeaderClick (\<lambda>s. s) Sales (onHeaderClick (\<lambda>s. s) Sales fetched)) Sales =
     Some False \<and>
   sortDirection
     (onHeaderClick (\<lambda>s. s) Sales
        (clicks (\<lambda>s. s) [Product, Date] (onHeaderClick (\<lambda>s. s) Sales fetched))) Sales =
     Some False"
proof -
  have a: "sortDirection fetched Sales = None"
    by code_simp
  have b: "Sales \<notin> set [Product, Date]"
    by simp
  have c: "sortDirection (onHeaderClick (\<lambda>s. s) Sales fetched) Sales = Some True"
    by code_simp
  from sort_direction_toggles_per_column [of fetched Sales "[Product, Date]" "\<lambda>s. s"] a b c
  show ?thesis by auto
qed

lemma sales_sorted_asc:
  "sorted (map sales (js_sort (compareRows ck Sales True) xs))"
  using sorted_compareRows [of ck Sales True xs]
  by (simp add: sorted_map ordered_by_def [abs_def])

lemma sales_sorted_desc:
  "sorted (map sales (rev (js_sort (compareRows ck Sales False) xs)))"
  using sorted_compareRows [of ck Sales False xs]
  by (simp add: sorted_map sorted_wrt_rev ordered_by_def [abs_def])

lemma distinct_sales_js_sort:
  "distinct (map sales (js_sort cmp xs)) \<longleftrightarrow> distinct (map sales xs)"
proof -
  have "mset (map sales (js_sort cmp xs)) = mset (map sales xs)"
    by (simp add: mset_js_sort)
  then show ?thesis by (rule mset_eq_imp_distinct_iff)
qed

text \<open>
  With pairwise distinct sales there is one ascending arrangement, and the descending
  sort of it is its reversal.
\<close>

lemma desc_after_asc_is_rev:
  assumes "distinct (map sales xs)"
  shows "js_sort (compareRows ck Sales False) (js_sort (compareRows ck Sales True) xs) =
         rev (js_sort (compareRows ck Sales True) xs)"
proof -
  let ?A = "js_sort (compareRows ck Sales True) xs"
  let ?D = "js_sort (compareRows ck Sales False) ?A"
  have dA: "distinct (map sales ?A)"
    using assms by (simp add: distinct_sales_js_sort)
  have dD: "distinct (map sales (rev ?D))"
    using dA by (simp add: distinct_sales_js_sort rev_map [symmetric] del: rev_map)
  have sets: "set ?D = set ?A"
    using mset_js_sort [of "compareRows ck Sales False" ?A] by (metis set_mset_mset)
  have "map sales (rev ?D) = map sales ?A"
  proof (rule sorted_distinct_set_unique)
    show "sorted (map sales (rev ?D))" by (rule sales_sorted_desc)
    show "distinct (map sales (rev ?D))" by (rule dD)
    show "sorted (map sales ?A)" by (rule sales_sorted_asc)
    show "distinct (map sales ?A)" by (rule dA)
    show "set (map sales (rev ?D)) = set (map sales ?A)" using sets by simp
  qed
  moreover have "inj_on sales (set (rev ?D) \<union> set ?A)"
    using dA sets by (simp add: distinct_map)
  ultimately have "rev ?D = ?A"
    by (simp add: inj_on_map_eq_map)
  then show ?thesis by (metis rev_rev_ident)
qed

text \<open>
  C7. On a table whose rows have pairwise distinct sales, a click on \<open>sales\<close> that
  sorts ascending followed by a second click on \<open>sales\<close> shows the rows, and their
  markup, in exactly the reverse of the ascending order.
\<close>

theorem sales_toggle_reverses:
  assumes "distinct (map sales (fullTableData st))"
    and "sortDirection st Sales \<noteq> Some True"
  shows "sortDirection (onHeaderClick ck Sales st) Sales = Some True \<and>
         sorted (map sales (fullTableData (onHeaderClick ck Sales st))) \<and>
         fullTableData (onHeaderClick ck Sales (onHeaderClick ck Sales st)) =
           rev (fullTableData (onHeaderClick ck Sales st)) \<and>
         tbody (onHeaderClick ck Sales (onHeaderClick ck Sales st)) =
           rev (tbody (onHeaderClick ck Sales st))"
proof -
  have t: "toggled (sortDirection st Sales)"
    using assms(2) by (cases "sortDirection st Sales") (auto simp: toggled_def)
  show ?thesis
    using assms(1) t
    by (simp add: onHeaderClick_eq toggled_def sales_sorted_asc desc_after_asc_is_rev rev_map)
qed

theorem sales_toggle_reverses_witness:
  "distinct (map sales (fullTableData fetched)) \<and> sortDirection fetched Sales \<noteq> Some True \<and>
   fullTableData (onHeaderClick (\<lambda>s. s) Sales fetched) = [row2, row1] \<and>
   fullTableData (onHeaderClick (\<lambda>s. s) Sales (onHeaderClick (\<lambda>s. s) Sales fetched)) =
     [row1, row2]"
proof -
  have a: "distinct (map sales (fullTableData fetched))"
    by code_simp
  have b: "sortDirection fetched Sales \<noteq> Some True"
    by code_simp
  have c: "fullTableData (onHeaderClick (\<lambda>s. s) Sales fetched) = [row2, row1]"
    by code_simp
  from sales_toggle_reverses [OF a b, of "\<lambda>s. s"] a b c show ?thesis
    by simp
qed

subsection \<open>Missing preconditions\<close>

text \<open>
  The token in memory is read from local storage when the script is loaded: without a
  stored token there is none in memory.
\<close>

lemma loaded_without_stored_token:
  "\<not> truthy stored \<Longrightarrow> \<not> truthy (token (loaded stored))"
  by (simp add: loaded_def truthy_def)

text \<open>
  C8. When one of the three charts has not been rendered, \<open>exportPDF\<close> shows the
  notification and does nothing else; when the token is absent or empty,
  \<open>scheduleEmail\<close> shows the notification and does nothing else. In both cases no
  request is issued and every other part of the state is as before.
\<close>

theorem missing_precondition_only_alerts:
  "(dailySalesChart st = None \<or> productChart st = None \<or> regionChart st = None \<longrightarrow>
      exportPDF res st = (Fulfilled, st\<lparr>alerts := alerts st @ [''Charts not ready'']\<rparr>) \<and>
      requests (snd (exportPDF res st)) = requests st) \<and>
   (\<not> truthy (token st) \<longrightarrow>
      scheduleEmail answer res' st =
        (Fulfilled, st\<lparr>alerts := alerts st @ [''Please login/register first.'']\<rparr>) \<and>
      requests (snd (scheduleEmail answer res' st)) = requests st)"
  by (simp add: exportPDF_def scheduleEmail_def)

theorem missing_precondition_only_alerts_witness:
  "dailySalesChart (loaded None) = None \<and> \<not> truthy (token (loaded None)) \<and>
   alerts (snd (exportPDF (Response True (Some sample_data)) (loaded None))) =
     [''Charts not ready''] \<and>
   requests (snd (exportPDF (Response True (Some sample_data)) (loaded None))) = [] \<and>
   alerts (snd (scheduleEmail (Some ''a@b.c'') (Response True (Some sample_data)) (loaded None))) =
     [''Please login/register first.''] \<and>
   requests (snd (scheduleEmail (Some ''a@b.c'') (Response True (Some sample_data)) (loaded None))) =
     []"
proof -
  have a: "dailySalesChart (loaded None) = None"
    by (simp add: loaded_def)
  have b: "\<not> truthy (token (loaded None))"
    by (simp add: loaded_def truthy_def)
  have c: "alerts (loaded None) = [] \<and> requests (loaded None) = []"
    by (simp add: loaded_def)
  from missing_precondition_only_alerts
         [of "loaded None" "Response True (Some sample_data)" "Some ''a@b.c''"
             "Response True (Some sample_data)"] a b c
  show ?thesis by simp
qed

subsection \<open>Export and stats queries\<close>

lemma stats_params_no_filters:
  "stats_params no_filters st =
     (if startDate st \<noteq> '''' then [(''start_date'', startDate st)] else []) @
     (if endDate st \<noteq> '''' then [(''end_date'', endDate st)] else []) @
     (if regionFilter st \<noteq> '''' then [(''region'', regionFilter st)] else []) @
     (if productFilter st \<noteq> '''' then [(''product'', productFilter st)] else [])"
  by (simp add: stats_params_def no_filters_def truthy_def append_param_def)

lemma export_params_eq:
  "export_params st =
     (if regionFilter st \<noteq> '''' then [(''region'', regionFilter st)] else []) @
     (if productFilter st \<noteq> '''' then [(''product'', productFilter st)] else []) @
     (if startDate st \<noteq> '''' then [(''start_date'', startDate st)] else []) @
     (if endDate st \<noteq> '''' then [(''end_date'', endDate st)] else [])"
  by (simp add: export_params_def append_param_def)

lemma mset_export_stats: "mset (export_params st) = mset (stats_params no_filters st)"
  by (simp add: export_params_eq stats_params_no_filters)

text \<open>
  C9. For every state of the four filter inputs, the parameters \<open>exportData\<close> puts in
  the export URL and the parameters \<open>fetchAndRender\<close>, called without explicit filters,
  puts in the stats URL are the same pairs (in a different order): a pair for each of
  \<open>start_date\<close>, \<open>end_date\<close>, \<open>region\<close> and \<open>product\<close> whose input is not empty, with
  the input's value, and no other pair.
\<close>

theorem export_query_same_as_stats_query:
  "\<exists>ps qs.
     location_href (exportData format st) = Some (API_BASE @ ''/api/export/'' @ format, ps) \<and>
     requests (snd (fetchAndRender no_filters res st)) = requests st @ [Get STATS_URL qs] \<and>
     mset ps = mset qs \<and>
     set ps = {(k, v). v \<noteq> '''' \<and>
                 (k = ''start_date'' \<and> v = startDate st \<or> k = ''end_date'' \<and> v = endDate st \<or>
                  k = ''region'' \<and> v = regionFilter st \<or> k = ''product'' \<and> v = productFilter st)}"
proof -
  have "set (export_params st) = {(k, v). v \<noteq> '''' \<and>
                 (k = ''start_date'' \<and> v = startDate st \<or> k = ''end_date'' \<and> v = endDate st \<or>
                  k = ''region'' \<and> v = regionFilter st \<or> k = ''product'' \<and> v = productFilter st)}"
    by (auto simp: export_params_eq)
  then show ?thesis
    by (simp add: exportData_def requests_fetchAndRender mset_export_stats)
qed

theorem export_query_same_as_stats_query_witness:
  "requests (snd (fetchAndRender no_filters TransportFailure picked)) =
     [Get STATS_URL [(''start_date'', ''2024-01-01''), (''region'', ''North'')]] \<and>
   (\<exists>ps. location_href (exportData ''csv'' picked) = Some (API_BASE @ ''/api/export/csv'', ps) \<and>
         mset ps = mset [(''start_date'', ''2024-01-01''), (''region'', ''North'')])"
proof -
  have a: "requests (snd (fetchAndRender no_filters TransportFailure picked)) =
     [Get STATS_URL [(''start_date'', ''2024-01-01''), (''region'', ''North'')]]"
    by code_simp
  have b: "requests picked = []"
    by code_simp
  from export_query_same_as_stats_query [of "''csv''" picked TransportFailure] a b
  show ?thesis by auto
qed

subsection \<open>The stored credential\<close>

lemma token_loginUser:
  "\<not> is_ok res \<Longrightarrow> token (snd (loginUser res st)) = token st \<and>
     dashboard_token (snd (loginUser res st)) = dashboard_token st"
  by (cases res) (auto simp: loginUser_def is_ok_def Let_def split: option.split)

lemma token_registerUser:
  "\<not> is_ok res \<Longrightarrow> token (snd (registerUser res st)) = token st \<and>
     dashboard_token (snd (registerUser res st)) = dashboard_token st"
  by (cases res) (auto simp: registerUser_def is_ok_def Let_def split: option.split)

lemma empty_field_loginUser:
  "authEmail st = '''' \<or> authPassword st = '''' \<Longrightarrow>
     loginUser res st = (Fulfilled, st\<lparr>alerts := alerts st @ [''Email & password required'']\<rparr>)"
  by (auto simp: loginUser_def)

lemma empty_field_registerUser:
  "authEmail st = '''' \<or> authPassword st = '''' \<Longrightarrow>
     registerUser res st = (Fulfilled, st\<lparr>alerts := alerts st @ [''Email & password required'']\<rparr>)"
  by (auto simp: registerUser_def)

text \<open>
  C10. \<open>loginUser\<close> and \<open>registerUser\<close> issue no request when the email or the password
  field is empty, and whenever the response is not ok (no response at all included)
  the token in memory and the \<open>dashboard_token\<close> entry of local storage are what they
  were.
\<close>

theorem auth_keeps_credential_unless_ok:
  "(authEmail st = '''' \<or> authPassword st = '''' \<longrightarrow>
      requests (snd (loginUser res st)) = requests st \<and>
      requests (snd (registerUser res st)) = requests st) \<and>
   (\<not> is_ok res \<longrightarrow>
      token (snd (loginUser res st)) = token st \<and>
      dashboard_token (snd (loginUser res st)) = dashboard_token st \<and>
      token (snd (registerUser res st)) = token st \<and>
      dashboard_token (snd (registerUser res st)) = dashboard_token st)"
  using token_loginUser [of res st] token_registerUser [of res st]
    empty_field_loginUser [of st res] empty_field_registerUser [of st res]
  by auto

theorem auth_keeps_credential_unless_ok_witness:
  "authEmail (loaded None) = '''' \<and>
   requests (snd (loginUser (Response True (Some sample_data)) (loaded None))) = [] \<and>
   requests (snd (registerUser (Response True (Some sample_data)) (loaded None))) = [] \<and>
   \<not> is_ok (Response False (Some error_data)) \<and>
   token (snd (loginUser (Response False (Some error_data)) form_filled)) = Some ''old-token'' \<and>
   dashboard_token (snd (registerUser (Response False (Some error_data)) form_filled)) =
     Some ''old-token''"
proof -
  have a: "authEmail (loaded None) = '''' \<and> requests (loaded None) = []"
    by (simp add: loaded_def)
  have b: "\<not> is_ok (Response False (Some error_data))"
    by (simp add: is_ok_def)
  have c: "token form_filled = Some ''old-token'' \<and> dashboard_token form_filled = Some ''old-token''"
    by (simp add: form_filled_def loaded_def truthy_def)
  from auth_keeps_credential_unless_ok [of "loaded None" "Response True (Some sample_data)"]
    auth_keeps_credential_unless_ok [of form_filled "Response False (Some error_data)"] a b c
  show ?thesis by simp
qed

end
